theory Spec2Isabelle
  imports Main
begin

section \<open>Regular expressions of the validators and of the handle lookup\<close>

text \<open>
  Strings are lists of 8-bit characters; the JavaScript code units above 255 are outside
  the model. A regular expression is a term of \<open>rexp\<close>; both anchors \<open>^\<close> and
  \<open>$\<close> of the source (no \<open>m\<close> flag anywhere) are rendered by matching the whole
  subject, which is what \<open>rmatch\<close> decides. The \<open>i\<close> flag of the two validator
  expressions changes nothing: \<open>\w\<close> and the blank have no case.
\<close>

definition code :: "char \<Rightarrow> nat" where
  "code c = of_char c"

text \<open>\<open>\w\<close> of JavaScript without the \<open>u\<close> flag: \<open>[A-Za-z0-9_]\<close>.\<close>

definition word_char :: "char \<Rightarrow> bool" where
  "word_char c \<longleftrightarrow>
     (code (CHR ''a'') \<le> code c \<and> code c \<le> code (CHR ''z'')) \<or>
     (code (CHR ''A'') \<le> code c \<and> code c \<le> code (CHR ''Z'')) \<or>
     (code (CHR ''0'') \<le> code c \<and> code c \<le> code (CHR ''9'')) \<or>
     c = CHR ''_''"

text \<open>The line terminators that \<open>.\<close> refuses: line feed and carriage return.\<close>

definition line_terminator :: "char \<Rightarrow> bool" where
  "line_terminator c \<longleftrightarrow> code c = 10 \<or> code c = 13"

text \<open>
  What \<open>String.prototype.trim\<close> strips: tab, line feed, vertical tab, form feed,
  carriage return, blank and the no-break space.
\<close>

definition js_ws :: "char \<Rightarrow> bool" where
  "js_ws c \<longleftrightarrow> (9 \<le> code c \<and> code c \<le> 13) \<or> code c = 32 \<or> code c = 160"

definition js_trim :: "string \<Rightarrow> string" where
  "js_trim s = rev (dropWhile js_ws (rev (dropWhile js_ws s)))"

text \<open>The syntax characters of a pattern: \<open>^ $ \ . * + ? ( ) [ ] { } |\<close>.\<close>

definition rx_syntax_char :: "char \<Rightarrow> bool" where
  "rx_syntax_char c \<longleftrightarrow>
     code c \<in> {94, 36, 92, 46, 42, 43, 63, 40, 41, 91, 93, 123, 125, 124}"

datatype cclass = CChar char | CWord | CDot

fun cmatch :: "cclass \<Rightarrow> char \<Rightarrow> bool" where
  "cmatch (CChar d) c = (c = d)"
| "cmatch CWord c = word_char c"
| "cmatch CDot c = (\<not> line_terminator c)"

datatype rexp = Zero | One | Atom cclass | Alt rexp rexp | Seq rexp rexp | Star rexp

definition Plus :: "rexp \<Rightarrow> rexp" where
  "Plus r = Seq r (Star r)"

definition Opt :: "rexp \<Rightarrow> rexp" where
  "Opt r = Alt r One"

fun power_rexp :: "nat \<Rightarrow> rexp \<Rightarrow> rexp" where
  "power_rexp 0 r = One"
| "power_rexp (Suc n) r = Seq r (power_rexp n r)"

fun upto_rexp :: "nat \<Rightarrow> rexp \<Rightarrow> rexp" where
  "upto_rexp 0 r = One"
| "upto_rexp (Suc n) r = Opt (Seq r (upto_rexp n r))"

text \<open>The quantifier \<open>{lo,hi}\<close>.\<close>

definition Range :: "nat \<Rightarrow> nat \<Rightarrow> rexp \<Rightarrow> rexp" where
  "Range lo hi r = Seq (power_rexp lo r) (upto_rexp (hi - lo) r)"

fun nullable :: "rexp \<Rightarrow> bool" where
  "nullable Zero = False"
| "nullable One = True"
| "nullable (Atom a) = False"
| "nullable (Alt r s) = (nullable r \<or> nullable s)"
| "nullable (Seq r s) = (nullable r \<and> nullable s)"
| "nullable (Star r) = True"

fun deriv :: "char \<Rightarrow> rexp \<Rightarrow> rexp" where
  "deriv c Zero = Zero"
| "deriv c One = Zero"
| "deriv c (Atom a) = (if cmatch a c then One else Zero)"
| "deriv c (Alt r s) = Alt (deriv c r) (deriv c s)"
| "deriv c (Seq r s) =
     (if nullable r then Alt (Seq (deriv c r) s) (deriv c s) else Seq (deriv c r) s)"
| "deriv c (Star r) = Seq (deriv c r) (Star r)"

fun rmatch :: "rexp \<Rightarrow> string \<Rightarrow> bool" where
  "rmatch r [] = nullable r"
| "rmatch r (c # cs) = rmatch (deriv c r) cs"

text \<open>The language of an expression, the specification of \<open>rmatch\<close>.\<close>

definition conc :: "string set \<Rightarrow> string set \<Rightarrow> string set" where
  "conc A B = {u @ v | u v. u \<in> A \<and> v \<in> B}"

inductive_set star :: "string set \<Rightarrow> string set" for A :: "string set" where
  star_nil: "[] \<in> star A"
| star_step: "u \<in> A \<Longrightarrow> v \<in> star A \<Longrightarrow> u @ v \<in> star A"

fun lang :: "rexp \<Rightarrow> string set" where
  "lang Zero = {}"
| "lang One = {[]}"
| "lang (Atom a) = {[c] | c. cmatch a c}"
| "lang (Alt r s) = lang r \<union> lang s"
| "lang (Seq r s) = conc (lang r) (lang s)"
| "lang (Star r) = star (lang r)"

text \<open>\<open>/^\w+(([ ]?\w+){1,5})$/i\<close> of \<open>isValidName\<close>.\<close>

definition nameRegex :: rexp where
  "nameRegex =
     Seq (Plus (Atom CWord))
         (Range 1 5 (Seq (Opt (Atom (CChar (CHR '' '')))) (Plus (Atom CWord))))"

text \<open>\<open>/^\w+$/i\<close> of \<open>isValidHandle\<close>.\<close>

definition handleRegex :: rexp where
  "handleRegex = Plus (Atom CWord)"

text \<open>
  \<open>new RegExp(`^${body}$`)\<close>: the expression a pattern body denotes. The modelled
  fragment is the bodies made of literal characters and of \<open>.\<close>; a body with any other
  syntax character (a quantifier, a group, a class, an escape, an alternative, an inner
  anchor) is outside it and gives \<open>None\<close>.
\<close>

definition compile_atom :: "char \<Rightarrow> rexp option" where
  "compile_atom c =
     (if c = CHR ''.'' then Some (Atom CDot)
      else if rx_syntax_char c then None
      else Some (Atom (CChar c)))"

fun new_RegExp :: "string \<Rightarrow> rexp option" where
  "new_RegExp [] = Some One"
| "new_RegExp (c # cs) =
     (case compile_atom c of
        None \<Rightarrow> None
      | Some a \<Rightarrow> (case new_RegExp cs of None \<Rightarrow> None | Some r \<Rightarrow> Some (Seq a r)))"

section \<open>Documents, store and session\<close>

text \<open>
  An ObjectId and its string form are identified: \<open>oid\<close>. A collection is the list of its
  documents in insertion order, which is the order in which an unsorted \<open>find\<close> and
  \<open>findOne\<close> visit them. \<open>next_oid\<close> is the supply of the identifiers that are
  assigned on creation. A date is its number of milliseconds.
\<close>

type_synonym oid = nat

record persona =
  p_id :: oid
  user :: string
  handle :: string
  name :: string

record follow =
  f_id :: oid
  followerId :: oid
  followingId :: oid
  dateFollowed :: int

record db =
  users :: "(oid \<times> string) list"
  personas :: "persona list"
  follows :: "follow list"
  next_oid :: oid

text \<open>
  The fields of \<open>req.session\<close> that the routes read and write. \<open>None\<close> is
  \<open>undefined\<close>.
\<close>

record session =
  userId :: "oid option"
  personaId :: "oid option"
  personId :: "oid option"

text \<open>
  The fields of a request that the routes read. The string fields are present and are
  strings; an identifier field is \<open>None\<close> when it is absent or empty, and otherwise
  is the ObjectId that the store casts the string to.

  Several strings cast to one ObjectId: its 24 hexadecimal digits may be written in
  either case, while \<open>toString\<close> prints them in lower case. The session keeps the active
  persona as \<open>toString\<close> printed it. \<open>query_personaId_verbatim\<close> says whether the
  query string is that very string, the printed form of \<open>query_personaId\<close>; it is what
  a comparison of the query string with a printed identifier depends on besides the
  identifiers.
\<close>

record request =
  body_username :: string
  body_handle :: string
  body_name :: string
  body_personaId :: "oid option"
  query_personaId :: "oid option"
  query_personaId_verbatim :: bool

datatype fault = TypeError | ValidationError | RegExpOutsideFragment

datatype payload =
    ErrorBody
  | MessageBody
  | PersonaBody persona
  | FollowBody follow
  | FollowListBody "follow list"

text \<open>
  What a route answers: \<open>res.status(n).json(...)\<close>, or an exception that leaves the
  handler before any answer is sent.
\<close>

datatype response = Json nat payload | Throws fault

type_synonym validator = "db \<Rightarrow> session \<Rightarrow> request \<Rightarrow> response option"

section \<open>Store primitives\<close>

text \<open>\<open>deleteOne\<close> of the driver removes the first document that matches.\<close>

fun delete_first :: "('a \<Rightarrow> bool) \<Rightarrow> 'a list \<Rightarrow> 'a list" where
  "delete_first P [] = []"
| "delete_first P (x # xs) = (if P x then xs else x # delete_first P xs)"

text \<open>
  A filter \<open>{field: /regex/}\<close> selects the documents whose field matches the expression;
  a pattern outside the modelled fragment is reported as a fault.
\<close>

definition regex_filter :: "string \<Rightarrow> fault + (string \<Rightarrow> bool)" where
  "regex_filter raw =
     (case new_RegExp (js_trim raw) of
        None \<Rightarrow> Inl RegExpOutsideFragment
      | Some r \<Rightarrow> Inr (rmatch r))"

section \<open>UserCollection\<close>

text \<open>
  Modelled from the spec: the user collection is not among the sources. An account has a
  stable identifier and a unique username string; \<open>findOneByUserId\<close> answers the username
  of the account with the given identifier, if any.
\<close>

definition UserCollection_findOneByUserId :: "db \<Rightarrow> oid option \<Rightarrow> string option" where
  "UserCollection_findOneByUserId st uid =
     (case uid of None \<Rightarrow> None | Some u \<Rightarrow> map_of (users st) u)"

section \<open>PersonaCollection\<close>

text \<open>
  The schema requires the three string fields, and a required string must not be empty:
  \<open>save\<close> rejects the document with a validation error otherwise.
\<close>

definition PersonaCollection_addOne ::
  "db \<Rightarrow> string \<Rightarrow> string \<Rightarrow> string \<Rightarrow> fault + (db \<times> persona)" where
  "PersonaCollection_addOne st username h n =
     (if username = [] \<or> h = [] \<or> n = [] then Inl ValidationError
      else
        let p = \<lparr>p_id = next_oid st, user = username, handle = h, name = n\<rparr>
        in Inr (st\<lparr>personas := personas st @ [p], next_oid := Suc (next_oid st)\<rparr>, p))"

definition PersonaCollection_findOneByPersonaId :: "db \<Rightarrow> oid \<Rightarrow> persona option" where
  "PersonaCollection_findOneByPersonaId st i = find (\<lambda>p. p_id p = i) (personas st)"

definition PersonaCollection_findOneByHandle :: "db \<Rightarrow> string \<Rightarrow> fault + persona option" where
  "PersonaCollection_findOneByHandle st h =
     (case regex_filter h of
        Inl e \<Rightarrow> Inl e
      | Inr hm \<Rightarrow> Inr (find (\<lambda>p. hm (handle p)) (personas st)))"

definition PersonaCollection_findOneByUserAndHandle ::
  "db \<Rightarrow> string \<Rightarrow> string \<Rightarrow> fault + persona option" where
  "PersonaCollection_findOneByUserAndHandle st username h =
     (case regex_filter username of
        Inl e \<Rightarrow> Inl e
      | Inr um \<Rightarrow>
          (case regex_filter h of
             Inl e \<Rightarrow> Inl e
           | Inr hm \<Rightarrow> Inr (find (\<lambda>p. um (user p) \<and> hm (handle p)) (personas st))))"

definition PersonaCollection_deleteOne :: "db \<Rightarrow> oid \<Rightarrow> db" where
  "PersonaCollection_deleteOne st i =
     st\<lparr>personas := delete_first (\<lambda>p. p_id p = i) (personas st)\<rparr>"

section \<open>FollowCollection\<close>

definition FollowCollection_addOne :: "db \<Rightarrow> int \<Rightarrow> oid \<Rightarrow> oid \<Rightarrow> db \<times> follow" where
  "FollowCollection_addOne st now a b =
     (let f = \<lparr>f_id = next_oid st, followerId = a, followingId = b, dateFollowed = now\<rparr>
      in (st\<lparr>follows := follows st @ [f], next_oid := Suc (next_oid st)\<rparr>, f))"

text \<open>
  An equality filter on both parties. An \<open>undefined\<close> party is sent to the store as
  \<open>null\<close>, which no stored edge carries (the schema requires both parties), so it
  selects nothing.
\<close>

definition FollowCollection_findOneByPartyIds ::
  "db \<Rightarrow> oid option \<Rightarrow> oid option \<Rightarrow> follow option" where
  "FollowCollection_findOneByPartyIds st a b =
     find (\<lambda>f. Some (followerId f) = a \<and> Some (followingId f) = b) (follows st)"

definition FollowCollection_findAllInitiatedById :: "db \<Rightarrow> oid \<Rightarrow> follow list" where
  "FollowCollection_findAllInitiatedById st i = filter (\<lambda>f. followerId f = i) (follows st)"

definition FollowCollection_findAllReceivedById :: "db \<Rightarrow> oid \<Rightarrow> follow list" where
  "FollowCollection_findAllReceivedById st i = filter (\<lambda>f. followingId f = i) (follows st)"

definition FollowCollection_deleteOne :: "db \<Rightarrow> oid \<Rightarrow> db" where
  "FollowCollection_deleteOne st i =
     st\<lparr>follows := delete_first (\<lambda>f. f_id f = i) (follows st)\<rparr>"

definition FollowCollection_deleteMany :: "db \<Rightarrow> oid \<Rightarrow> db" where
  "FollowCollection_deleteMany st i =
     st\<lparr>follows := filter (\<lambda>f. followerId f \<noteq> i) (follows st)\<rparr>"

section \<open>Middleware\<close>

text \<open>
  A validator answers \<open>None\<close> when it calls \<open>next()\<close> and the response it sends
  otherwise. \<open>run_validators\<close> is the way the router runs the list: in order, up to the
  first one that answers.
\<close>

fun run_validators :: "validator list \<Rightarrow> validator" where
  "run_validators [] st s rq = None"
| "run_validators (v # vs) st s rq =
     (case v st s rq of Some r \<Rightarrow> Some r | None \<Rightarrow> run_validators vs st s rq)"

text \<open>
  Modelled from the spec: the user middleware is not among the sources. The routes
  document it as answering 403 if the user is not logged in, that is, if the session
  carries no account.
\<close>

definition isUserLoggedIn :: validator where
  "isUserLoggedIn st s rq = (if userId s = None then Some (Json 403 ErrorBody) else None)"

definition isValidName :: validator where
  "isValidName st s rq =
     (if \<not> rmatch nameRegex (body_name rq) then Some (Json 400 ErrorBody) else None)"

definition isValidHandle :: validator where
  "isValidHandle st s rq =
     (if \<not> rmatch handleRegex (body_handle rq) then Some (Json 400 ErrorBody) else None)"

definition isHandleNotAlreadyInUse :: validator where
  "isHandleNotAlreadyInUse st s rq =
     (case PersonaCollection_findOneByHandle st (body_handle rq) of
        Inl e \<Rightarrow> Some (Throws e)
      | Inr (Some p) \<Rightarrow> Some (Json 409 ErrorBody)
      | Inr None \<Rightarrow> None)"

definition isPersonaHandleExistWithUser :: validator where
  "isPersonaHandleExistWithUser st s rq =
     (case UserCollection_findOneByUserId st (userId s) of
        None \<Rightarrow> Some (Throws TypeError)
      | Some username \<Rightarrow>
          (case PersonaCollection_findOneByUserAndHandle st username (body_handle rq) of
             Inl e \<Rightarrow> Some (Throws e)
           | Inr None \<Rightarrow> Some (Json 404 ErrorBody)
           | Inr (Some p) \<Rightarrow> None))"

definition isPersonaExists :: validator where
  "isPersonaExists st s rq =
     (case body_personaId rq of
        None \<Rightarrow> Some (Json 404 ErrorBody)
      | Some i \<Rightarrow>
          (case PersonaCollection_findOneByPersonaId st i of
             None \<Rightarrow> Some (Json 404 ErrorBody)
           | Some p \<Rightarrow> None))"

definition isPersonaQueryExists :: validator where
  "isPersonaQueryExists st s rq =
     (case query_personaId rq of
        None \<Rightarrow> Some (Json 400 ErrorBody)
      | Some i \<Rightarrow>
          (case PersonaCollection_findOneByPersonaId st i of
             None \<Rightarrow> Some (Json 404 ErrorBody)
           | Some p \<Rightarrow> None))"

definition isPersonaSignedIn :: validator where
  "isPersonaSignedIn st s rq =
     (if personaId s = None then Some (Json 403 ErrorBody) else None)"

definition isFollowNotExistUnderSignedInPersona :: validator where
  "isFollowNotExistUnderSignedInPersona st s rq =
     (case FollowCollection_findOneByPartyIds st (personaId s) (body_personaId rq) of
        Some f \<Rightarrow> Some (Json 409 ErrorBody)
      | None \<Rightarrow> None)"

definition isFollowExistUnderSignedInPersona :: validator where
  "isFollowExistUnderSignedInPersona st s rq =
     (case FollowCollection_findOneByPartyIds st (personaId s) (body_personaId rq) of
        None \<Rightarrow> Some (Json 404 ErrorBody)
      | Some f \<Rightarrow> None)"

section \<open>Routes\<close>

text \<open>
  A route takes the store, the session and the request, and gives the store and the
  session it leaves and its response. Every exception of the modelled routes is raised
  before the route's first write, so a route that throws leaves both as they were.
\<close>

type_synonym outcome = "db \<times> session \<times> response"

definition route ::
  "validator list \<Rightarrow> (db \<Rightarrow> session \<Rightarrow> request \<Rightarrow> outcome) \<Rightarrow> db \<Rightarrow> session \<Rightarrow> request \<Rightarrow> outcome" where
  "route vs handler st s rq =
     (case run_validators vs st s rq of
        Some r \<Rightarrow> (st, s, r)
      | None \<Rightarrow> handler st s rq)"

text \<open>\<open>POST /api/persona/session\<close>: sign in a persona.\<close>

definition persona_signIn_handler :: "db \<Rightarrow> session \<Rightarrow> request \<Rightarrow> outcome" where
  "persona_signIn_handler st s rq =
     (case PersonaCollection_findOneByHandle st (body_handle rq) of
        Inl e \<Rightarrow> (st, s, Throws e)
      | Inr None \<Rightarrow> (st, s, Throws TypeError)
      | Inr (Some p) \<Rightarrow> (st, s\<lparr>personaId := Some (p_id p)\<rparr>, Json 200 (PersonaBody p)))"

definition persona_signIn :: "db \<Rightarrow> session \<Rightarrow> request \<Rightarrow> outcome" where
  "persona_signIn =
     route [isUserLoggedIn, isValidHandle, isPersonaHandleExistWithUser] persona_signIn_handler"

text \<open>\<open>POST /api/persona\<close>: create a persona.\<close>

definition persona_create_handler :: "db \<Rightarrow> session \<Rightarrow> request \<Rightarrow> outcome" where
  "persona_create_handler st s rq =
     (case PersonaCollection_addOne st (body_username rq) (body_handle rq) (body_name rq) of
        Inl e \<Rightarrow> (st, s, Throws e)
      | Inr (st', p) \<Rightarrow> (st', s\<lparr>personId := Some (p_id p)\<rparr>, Json 201 (PersonaBody p)))"

definition persona_create :: "db \<Rightarrow> session \<Rightarrow> request \<Rightarrow> outcome" where
  "persona_create =
     route [isUserLoggedIn, isValidName, isValidHandle, isHandleNotAlreadyInUse]
       persona_create_handler"

text \<open>
  \<open>DELETE /api/persona?personaId=id\<close>: delete a persona. The guard is
  \<open>req.query.personaId.toString() === req.session.personaId\<close>, an equality of strings:
  it holds when the query casts to the active persona's identifier and spells it as the
  session does. \<open>deleteOne\<close> casts the query string, whatever its spelling.
\<close>

definition persona_delete_handler :: "db \<Rightarrow> session \<Rightarrow> request \<Rightarrow> outcome" where
  "persona_delete_handler st s rq =
     (case query_personaId rq of
        None \<Rightarrow> (st, s, Throws TypeError)
      | Some i \<Rightarrow>
          if Some i = personaId s \<and> query_personaId_verbatim rq
          then (st, s, Json 401 ErrorBody)
          else (PersonaCollection_deleteOne st i, s, Json 200 MessageBody))"

definition persona_delete :: "db \<Rightarrow> session \<Rightarrow> request \<Rightarrow> outcome" where
  "persona_delete = route [isUserLoggedIn, isPersonaQueryExists] persona_delete_handler"

text \<open>\<open>GET /api/follows/following\<close> and \<open>GET /api/follows/followers\<close>.\<close>

definition follow_following_handler :: "db \<Rightarrow> session \<Rightarrow> request \<Rightarrow> outcome" where
  "follow_following_handler st s rq =
     (case personaId s of
        None \<Rightarrow> (st, s, Json 200 (FollowListBody []))
      | Some a \<Rightarrow> (st, s, Json 200 (FollowListBody (FollowCollection_findAllInitiatedById st a))))"

definition follow_following :: "db \<Rightarrow> session \<Rightarrow> request \<Rightarrow> outcome" where
  "follow_following = route [isUserLoggedIn, isPersonaSignedIn] follow_following_handler"

definition follow_followers_handler :: "db \<Rightarrow> session \<Rightarrow> request \<Rightarrow> outcome" where
  "follow_followers_handler st s rq =
     (case personaId s of
        None \<Rightarrow> (st, s, Json 200 (FollowListBody []))
      | Some a \<Rightarrow> (st, s, Json 200 (FollowListBody (FollowCollection_findAllReceivedById st a))))"

definition follow_followers :: "db \<Rightarrow> session \<Rightarrow> request \<Rightarrow> outcome" where
  "follow_followers = route [isUserLoggedIn, isPersonaSignedIn] follow_followers_handler"

text \<open>
  \<open>POST /api/follows\<close>: the signed-in persona follows the persona of the body. \<open>now\<close>
  is the clock reading of \<open>new Date()\<close>.
\<close>

definition follow_create_handler :: "int \<Rightarrow> db \<Rightarrow> session \<Rightarrow> request \<Rightarrow> outcome" where
  "follow_create_handler now st s rq =
     (case (personaId s, body_personaId rq) of
        (Some a, Some b) \<Rightarrow>
          (let (st', f) = FollowCollection_addOne st now a b
           in (st', s, Json 201 (FollowBody f)))
      | _ \<Rightarrow> (st, s, Throws ValidationError))"

definition follow_create :: "int \<Rightarrow> db \<Rightarrow> session \<Rightarrow> request \<Rightarrow> outcome" where
  "follow_create now =
     route [isUserLoggedIn, isPersonaSignedIn, isPersonaExists,
            isFollowNotExistUnderSignedInPersona]
       (follow_create_handler now)"

text \<open>
  \<open>DELETE /api/follows?personaId=id\<close>: unfollow. The last validator reads the persona
  from the body, the handler and the validator before it read it from the query; the
  handler dereferences the edge it looks up without a check.
\<close>

definition follow_delete_handler :: "db \<Rightarrow> session \<Rightarrow> request \<Rightarrow> outcome" where
  "follow_delete_handler st s rq =
     (case query_personaId rq of
        None \<Rightarrow> (st, s, Throws TypeError)
      | Some b \<Rightarrow>
          (case FollowCollection_findOneByPartyIds st (personaId s) (Some b) of
             None \<Rightarrow> (st, s, Throws TypeError)
           | Some f \<Rightarrow> (FollowCollection_deleteOne st (f_id f), s, Json 200 MessageBody)))"

definition follow_delete :: "db \<Rightarrow> session \<Rightarrow> request \<Rightarrow> outcome" where
  "follow_delete =
     route [isUserLoggedIn, isPersonaSignedIn, isPersonaQueryExists,
            isFollowExistUnderSignedInPersona]
       follow_delete_handler"

section \<open>The rules in the specification's words\<close>

text \<open>A nonempty token of alphanumeric or underscore characters.\<close>

definition word_token :: "string \<Rightarrow> bool" where
  "word_token s \<longleftrightarrow> s \<noteq> [] \<and> list_all word_char s"

text \<open>
  The name rule: 1 to 6 groups of word characters, with one blank between adjacent
  groups. \<open>split_blank\<close> cuts a string at every blank.
\<close>

fun split_blank :: "string \<Rightarrow> string list" where
  "split_blank [] = [[]]"
| "split_blank (c # cs) =
     (if c = CHR '' '' then [] # split_blank cs
      else (case split_blank cs of [] \<Rightarrow> [[c]] | g # gs \<Rightarrow> (c # g) # gs))"

definition spec_name_ok :: "string \<Rightarrow> bool" where
  "spec_name_ok n \<longleftrightarrow>
     (let gs = split_blank n in 1 \<le> length gs \<and> length gs \<le> 6 \<and> list_all word_token gs)"

text \<open>A pattern body without syntax characters, which denotes itself.\<close>

definition literal_pattern :: "string \<Rightarrow> bool" where
  "literal_pattern w \<longleftrightarrow> list_all (\<lambda>c. \<not> rx_syntax_char c) w"

text \<open>Newest first: the dates of a list of edges never increase.\<close>

definition newest_first :: "follow list \<Rightarrow> bool" where
  "newest_first fs \<longleftrightarrow> sorted (rev (map dateFollowed fs))"

text \<open>
  A well-formed store: identifiers are unique in each collection and were all issued by
  the supply.
\<close>

definition store_ok :: "db \<Rightarrow> bool" where
  "store_ok st \<longleftrightarrow>
     distinct (map p_id (personas st)) \<and> distinct (map f_id (follows st)) \<and>
     list_all (\<lambda>p. p_id p < next_oid st) (personas st) \<and>
     list_all (\<lambda>f. f_id f < next_oid st) (follows st)"

section \<open>A small store\<close>

text \<open>
  Two accounts, three personas and no edge yet; the sessions of account \<open>ann\<close> and
  \<open>ben\<close>, each with a chosen active persona; and a request with nothing in it.
\<close>

definition alice :: persona where
  "alice = \<lparr>p_id = 10, user = ''ann'', handle = ''alice'', name = ''Alice A''\<rparr>"

definition bob :: persona where
  "bob = \<lparr>p_id = 11, user = ''ann'', handle = ''bob'', name = ''Bob B''\<rparr>"

definition carol :: persona where
  "carol = \<lparr>p_id = 12, user = ''ben'', handle = ''carol'', name = ''Carol C''\<rparr>"

definition store0 :: db where
  "store0 = \<lparr>users = [(1, ''ann''), (2, ''ben'')], personas = [alice, bob, carol],
     follows = [], next_oid = 13\<rparr>"

definition ann_session :: "oid option \<Rightarrow> session" where
  "ann_session a = \<lparr>userId = Some 1, personaId = a, personId = None\<rparr>"

definition ben_session :: "oid option \<Rightarrow> session" where
  "ben_session a = \<lparr>userId = Some 2, personaId = a, personId = None\<rparr>"

definition no_request :: request where
  "no_request = \<lparr>body_username = [], body_handle = [], body_name = [],
     body_personaId = None, query_personaId = None, query_personaId_verbatim = True\<rparr>"

definition create_request :: "string \<Rightarrow> string \<Rightarrow> string \<Rightarrow> request" where
  "create_request u h n = no_request\<lparr>body_username := u, body_handle := h, body_name := n\<rparr>"

definition handle_request :: "string \<Rightarrow> request" where
  "handle_request h = no_request\<lparr>body_handle := h\<rparr>"

definition body_request :: "oid \<Rightarrow> request" where
  "body_request i = no_request\<lparr>body_personaId := Some i\<rparr>"

definition query_request :: "oid \<Rightarrow> request" where
  "query_request i = no_request\<lparr>query_personaId := Some i\<rparr>"

text \<open>
  The query of a request that spells the identifier otherwise than \<open>toString\<close> prints
  it, with its hexadecimal digits in upper case.
\<close>

definition query_request_upper_case :: "oid \<Rightarrow> request" where
  "query_request_upper_case i =
     no_request\<lparr>query_personaId := Some i, query_personaId_verbatim := False\<rparr>"

text \<open>\<open>store1\<close>: alice has followed bob at time 1000.\<close>

definition store1 :: db where
  "store1 = fst (follow_create 1000 store0 (ann_session (Some 10))
                  (body_request 11))"

text \<open>\<open>store2\<close>: alice has then followed carol at time 2000.\<close>

definition store2 :: db where
  "store2 = fst (follow_create 2000 store1 (ann_session (Some 10))
                  (body_request 12))"

text \<open>\<open>store3\<close>: carol has then followed bob at time 3000.\<close>

definition store3 :: db where
  "store3 = fst (follow_create 3000 store2 (ben_session (Some 12)) (body_request 11))"

definition edge :: "oid \<Rightarrow> oid \<Rightarrow> oid \<Rightarrow> int \<Rightarrow> follow" where
  "edge i a b t = \<lparr>f_id = i, followerId = a, followingId = b, dateFollowed = t\<rparr>"

text \<open>
  \<open>store_dot\<close>: the small store with a third account, whose username is \<open>a.n\<close> and
  which owns no persona, and the session of that account.
\<close>

definition store_dot :: db where
  "store_dot = store0\<lparr>users := [(1, ''ann''), (2, ''ben''), (3, ''a.n'')]\<rparr>"

definition dot_session :: "oid option \<Rightarrow> session" where
  "dot_session a = \<lparr>userId = Some 3, personaId = a, personId = None\<rparr>"

text \<open>
  A store without personas, and the stores after account \<open>ann\<close> has created the handle
  \<open>Alice\<close> and then the handle \<open>alice\<close> in it.
\<close>

definition fresh_store :: db where
  "fresh_store = \<lparr>users = [(1, ''ann'')], personas = [], follows = [], next_oid = 10\<rparr>"

definition after_Alice :: db where
  "after_Alice = fst (persona_create fresh_store (ann_session None)
                       (create_request ''ann'' ''Alice'' ''Alice A''))"

definition after_alice :: db where
  "after_alice = fst (persona_create after_Alice (ann_session None)
                       (create_request ''ann'' ''alice'' ''Alice B''))"

section \<open>The matcher decides the language\<close>

lemma nil_in_conc: "[] \<in> conc A B \<longleftrightarrow> [] \<in> A \<and> [] \<in> B"
  by (auto simp: conc_def)

lemma cons_in_conc:
  "c # s \<in> conc A B \<longleftrightarrow>
     (\<exists>u v. s = u @ v \<and> c # u \<in> A \<and> v \<in> B) \<or> ([] \<in> A \<and> c # s \<in> B)"
  by (auto simp: conc_def Cons_eq_append_conv) 

lemma star_cons_split:
  "w \<in> star A \<Longrightarrow> w = c # s \<Longrightarrow> \<exists>u v. s = u @ v \<and> c # u \<in> A \<and> v \<in> star A"
proof (induction arbitrary: s rule: star.induct)
  case star_nil
  then show ?case by simp
next
  case (star_step u v)
  show ?case
  proof (cases u)
    case Nil
    with star_step show ?thesis by simp
  next
    case (Cons d u')
    with star_step.prems have "d = c" and "s = u' @ v" by simp_all
    with Cons star_step.hyps show ?thesis by blast
  qed
qed

lemma cons_in_star:
  "c # s \<in> star A \<longleftrightarrow> (\<exists>u v. s = u @ v \<and> c # u \<in> A \<and> v \<in> star A)"
proof
  assume "c # s \<in> star A"
  then show "\<exists>u v. s = u @ v \<and> c # u \<in> A \<and> v \<in> star A"
    by (rule star_cons_split) simp
next
  assume "\<exists>u v. s = u @ v \<and> c # u \<in> A \<and> v \<in> star A"
  then obtain u v where "s = u @ v" "c # u \<in> A" "v \<in> star A" by blast
  then have "(c # u) @ v \<in> star A" by (intro star_step)
  with \<open>s = u @ v\<close> show "c # s \<in> star A" by simp
qed

lemma nullable_lang: "nullable r \<longleftrightarrow> [] \<in> lang r"
  by (induction r) (auto simp: nil_in_conc intro: star_nil)

lemma deriv_conc:
  assumes "\<And>u. u \<in> A' \<longleftrightarrow> c # u \<in> A"
  shows "s \<in> conc A' B \<longleftrightarrow> (\<exists>u v. s = u @ v \<and> c # u \<in> A \<and> v \<in> B)"
  using assms by (auto simp: conc_def)

lemma deriv_lang: "s \<in> lang (deriv c r) \<longleftrightarrow> c # s \<in> lang r"
proof (induction r arbitrary: s)
  case (Seq r1 r2)
  have left: "s \<in> conc (lang (deriv c r1)) (lang r2) \<longleftrightarrow>
      (\<exists>u v. s = u @ v \<and> c # u \<in> lang r1 \<and> v \<in> lang r2)"
    by (rule deriv_conc) (rule Seq.IH(1))
  show ?case
    by (simp add: cons_in_conc nullable_lang left Seq.IH(2))
next
  case (Star r)
  have "s \<in> conc (lang (deriv c r)) (star (lang r)) \<longleftrightarrow>
      (\<exists>u v. s = u @ v \<and> c # u \<in> lang r \<and> v \<in> star (lang r))"
    by (rule deriv_conc) (rule Star.IH)
  then show ?case
    by (simp add: cons_in_star)
qed auto

lemma rmatch_lang: "rmatch r s \<longleftrightarrow> s \<in> lang r"
  by (induction s arbitrary: r) (auto simp: nullable_lang deriv_lang)


section \<open>Literal patterns and word tokens\<close>

lemma code_underscore: "code (CHR ''_'') = 95"
  by (simp add: code_def)

lemma word_char_code:
  "word_char c \<longleftrightarrow>
     (97 \<le> code c \<and> code c \<le> 122) \<or> (65 \<le> code c \<and> code c \<le> 90) \<or>
     (48 \<le> code c \<and> code c \<le> 57) \<or> code c = 95"
proof -
  have "c = CHR ''_'' \<longleftrightarrow> code c = 95"
    unfolding code_def by (metis code_def code_underscore of_char_eq_iff)
  then show ?thesis
    by (simp add: word_char_def) (simp add: code_def)
qed

lemma word_char_not_syntax: "word_char c \<Longrightarrow> \<not> rx_syntax_char c"
  by (auto simp: word_char_code rx_syntax_char_def)

lemma word_char_not_ws: "word_char c \<Longrightarrow> \<not> js_ws c"
  by (auto simp: word_char_code js_ws_def)

lemma dot_is_syntax: "rx_syntax_char (CHR ''.'')"
  by (simp add: rx_syntax_char_def code_def)

lemma star_word: "star {[c] | c. word_char c} = {s. list_all word_char s}"
proof (intro set_eqI iffI)
  fix s assume "s \<in> star {[c] | c. word_char c}"
  then show "s \<in> {s. list_all word_char s}"
    by (induction rule: star.induct) auto
next
  fix s assume "s \<in> {s. list_all word_char s}"
  then have "list_all word_char s" by simp
  then show "s \<in> star {[c] | c. word_char c}"
  proof (induction s)
    case Nil
    show ?case by (rule star_nil)
  next
    case (Cons c s)
    then have "[c] \<in> {[c] | c. word_char c}" and "s \<in> star {[c] | c. word_char c}"
      by auto
    then have "[c] @ s \<in> star {[c] | c. word_char c}" by (rule star_step)
    then show ?case by simp
  qed
qed

lemma conc_singletons:
  "s \<in> conc {[c] | c. P c} B \<longleftrightarrow> (\<exists>c t. s = c # t \<and> P c \<and> t \<in> B)"
proof
  assume "s \<in> conc {[c] | c. P c} B"
  then show "\<exists>c t. s = c # t \<and> P c \<and> t \<in> B"
    by (auto simp: conc_def)
next
  assume "\<exists>c t. s = c # t \<and> P c \<and> t \<in> B"
  then obtain c t where "s = [c] @ t" "P c" "t \<in> B" by auto
  then show "s \<in> conc {[c] | c. P c} B"
    unfolding conc_def by blast
qed

lemma handleRegex_iff: "rmatch handleRegex h \<longleftrightarrow> word_token h"
  by (cases h)
     (simp_all add: rmatch_lang handleRegex_def Plus_def star_word word_token_def
        conc_singletons del: rmatch.simps)

lemma new_RegExp_literal:
  "literal_pattern w \<Longrightarrow> \<exists>r. new_RegExp w = Some r \<and> lang r = {w}"
proof (induction w)
  case Nil
  show ?case by simp
next
  case (Cons c w)
  then obtain r where r: "new_RegExp w = Some r" "lang r = {w}"
    by (auto simp: literal_pattern_def)
  from Cons.prems have "\<not> rx_syntax_char c" by (simp add: literal_pattern_def)
  then have "compile_atom c = Some (Atom (CChar c))"
    using dot_is_syntax by (auto simp: compile_atom_def)
  with r show ?case by (auto simp: conc_def)
qed

lemma dropWhile_id: "xs = [] \<or> \<not> P (hd xs) \<Longrightarrow> dropWhile P xs = xs"
  by (cases xs) auto

lemma js_trim_id:
  assumes "list_all (\<lambda>c. \<not> js_ws c) w"
  shows "js_trim w = w"
proof (cases "w = []")
  case True
  then show ?thesis by (simp add: js_trim_def)
next
  case False
  with assms have "\<not> js_ws (hd w)" and "\<not> js_ws (last w)"
    by (auto simp: list_all_iff)
  with False have "dropWhile js_ws w = w" and "dropWhile js_ws (rev w) = rev w"
    by (simp_all add: dropWhile_id hd_rev)
  then show ?thesis by (simp add: js_trim_def)
qed

lemma regex_filter_literal:
  assumes "literal_pattern (js_trim h)"
  shows "regex_filter h = Inr (\<lambda>s. s = js_trim h)"
proof -
  from new_RegExp_literal [OF assms] obtain r
    where r: "new_RegExp (js_trim h) = Some r" "lang r = {js_trim h}" by blast
  then have "rmatch r = (\<lambda>s. s = js_trim h)"
    by (intro ext) (simp add: rmatch_lang)
  with r show ?thesis by (simp add: regex_filter_def)
qed

lemma word_chars_plain:
  assumes "list_all word_char w"
  shows "js_trim w = w" and "literal_pattern w"
proof -
  from assms have "list_all (\<lambda>c. \<not> js_ws c) w"
    by (auto simp: list_all_iff word_char_not_ws)
  then show "js_trim w = w" by (rule js_trim_id)
  from assms show "literal_pattern w"
    by (auto simp: literal_pattern_def list_all_iff word_char_not_syntax)
qed

lemma regex_filter_word:
  assumes "list_all word_char w"
  shows "regex_filter w = Inr (\<lambda>s. s = w)"
  using regex_filter_literal [of w] word_chars_plain [OF assms] by simp


section \<open>Lookups by handle on literal patterns\<close>

lemma findOneByHandle_literal:
  assumes "literal_pattern (js_trim h)"
  shows "PersonaCollection_findOneByHandle st h =
           Inr (find (\<lambda>p. handle p = js_trim h) (personas st))"
  by (simp add: PersonaCollection_findOneByHandle_def regex_filter_literal [OF assms])

lemma word_token_plain:
  assumes "word_token w"
  shows "js_trim w = w" and "literal_pattern w"
  using assms word_chars_plain [of w] by (simp_all add: word_token_def)

lemma findOneByUserAndHandle_word:
  assumes "list_all word_char username" and "word_token h"
  shows "PersonaCollection_findOneByUserAndHandle st username h =
           Inr (find (\<lambda>p. user p = username \<and> handle p = h) (personas st))"
  using assms
  by (simp add: PersonaCollection_findOneByUserAndHandle_def regex_filter_word word_token_def)

section \<open>Store primitives: facts\<close>

lemma find_unique_key:
  assumes "distinct (map k xs)" and "find (\<lambda>x. k x = i) xs = Some p"
    and "q \<in> set xs" and "k q = i"
  shows "p = q"
proof -
  from assms(2) have "p \<in> set xs" and "k p = i"
    by (auto simp: find_Some_iff)
  moreover from assms(1) have "inj_on k (set xs)"
    by (simp add: distinct_map)
  ultimately show ?thesis using assms(3,4) by (auto dest: inj_onD)
qed

lemma find_delete_first_distinct:
  "distinct (map k xs) \<Longrightarrow> find (\<lambda>x. k x = i) (delete_first (\<lambda>x. k x = i) xs) = None"
proof (induction xs)
  case Nil
  show ?case by simp
next
  case (Cons x xs)
  show ?case
  proof (cases "k x = i")
    case True
    with Cons.prems have "\<forall>y\<in>set xs. k y \<noteq> i" by (auto simp: image_iff)
    then have "find (\<lambda>x. k x = i) xs = None" by (simp add: find_None_iff)
    with True show ?thesis by simp
  next
    case False
    with Cons show ?thesis by simp
  qed
qed

lemma find_snoc:
  "find P (xs @ [y]) = (case find P xs of Some x \<Rightarrow> Some x | None \<Rightarrow> if P y then Some y else None)"
  by (induction xs) auto

section \<open>The follow route: when it creates and when it refuses\<close>

lemma follow_create_success:
  "follow_create t st s rq = (st', s', Json 201 (FollowBody f)) \<longleftrightarrow>
     (\<exists>a b. userId s \<noteq> None \<and> personaId s = Some a \<and> body_personaId rq = Some b \<and>
        PersonaCollection_findOneByPersonaId st b \<noteq> None \<and>
        FollowCollection_findOneByPartyIds st (Some a) (Some b) = None \<and>
        f = \<lparr>f_id = next_oid st, followerId = a, followingId = b, dateFollowed = t\<rparr> \<and>
        st' = st\<lparr>follows := follows st @ [f], next_oid := Suc (next_oid st)\<rparr> \<and> s' = s)"
  by (auto simp: follow_create_def route_def follow_create_handler_def
        isUserLoggedIn_def isPersonaSignedIn_def isPersonaExists_def
        isFollowNotExistUnderSignedInPersona_def FollowCollection_addOne_def Let_def
      split: option.splits)

lemma follow_create_conflict:
  assumes "userId s \<noteq> None" and "personaId s = Some a" and "body_personaId rq = Some b"
    and "PersonaCollection_findOneByPersonaId st b \<noteq> None"
    and "FollowCollection_findOneByPartyIds st (Some a) (Some b) \<noteq> None"
  shows "follow_create t st s rq = (st, s, Json 409 ErrorBody)"
  using assms
  by (auto simp: follow_create_def route_def isUserLoggedIn_def isPersonaSignedIn_def
        isPersonaExists_def isFollowNotExistUnderSignedInPersona_def
      split: option.splits)

lemma findOneByPartyIds_after_addOne:
  "FollowCollection_findOneByPartyIds
     (st\<lparr>follows := follows st @ [f], next_oid := n\<rparr>) x y =
   (case FollowCollection_findOneByPartyIds st x y of
      Some g \<Rightarrow> Some g
    | None \<Rightarrow> if Some (followerId f) = x \<and> Some (followingId f) = y then Some f else None)"
  by (simp add: FollowCollection_findOneByPartyIds_def find_snoc)

lemma findOneByPersonaId_after_addOne:
  "PersonaCollection_findOneByPersonaId (st\<lparr>follows := fs, next_oid := n\<rparr>) i =
   PersonaCollection_findOneByPersonaId st i"
  by (simp add: PersonaCollection_findOneByPersonaId_def)

section \<open>The create route: when it refuses the format\<close>

lemma create_invalid_format_iff:
  assumes "userId s \<noteq> None"
  shows "snd (snd (persona_create st s rq)) = Json 400 ErrorBody \<longleftrightarrow>
           \<not> rmatch nameRegex (body_name rq) \<or> \<not> word_token (body_handle rq)"
  using assms
  by (auto simp: persona_create_def route_def persona_create_handler_def
        PersonaCollection_addOne_def Let_def isUserLoggedIn_def isValidName_def
        isValidHandle_def isHandleNotAlreadyInUse_def handleRegex_iff
      split: option.splits sum.splits if_splits)

section \<open>What the routes preserve\<close>

lemma set_delete_first: "set (delete_first P xs) \<subseteq> set xs"
  by (induction xs) auto

lemma distinct_delete_first:
  "distinct (map k xs) \<Longrightarrow> distinct (map k (delete_first P xs))"
proof (induction xs)
  case Nil
  show ?case by simp
next
  case (Cons x xs)
  have "k ` set (delete_first P xs) \<subseteq> k ` set xs"
    using set_delete_first [of P xs] by blast
  with Cons show ?case by auto
qed

lemma deleteMany_keeps_received:
  "FollowCollection_findAllReceivedById (FollowCollection_deleteMany st p) p =
     filter (\<lambda>f. followerId f \<noteq> p) (FollowCollection_findAllReceivedById st p)"
  "FollowCollection_findAllInitiatedById (FollowCollection_deleteMany st p) p = []"
  by (auto simp: FollowCollection_findAllReceivedById_def FollowCollection_deleteMany_def
        FollowCollection_findAllInitiatedById_def filter_empty_conv intro: filter_cong)

lemma persona_create_store_ok:
  assumes "store_ok st"
  shows "store_ok (fst (persona_create st s rq))"
  using assms
  by (auto simp: store_ok_def persona_create_def route_def persona_create_handler_def
        PersonaCollection_addOne_def Let_def list_all_iff
      split: option.splits sum.splits if_splits)

lemma follow_create_store_ok:
  assumes "store_ok st"
  shows "store_ok (fst (follow_create t st s rq))"
  using assms
  by (auto simp: store_ok_def follow_create_def route_def follow_create_handler_def
        FollowCollection_addOne_def Let_def list_all_iff
      split: option.splits sum.splits if_splits prod.splits)

lemma persona_delete_store_ok:
  assumes "store_ok st"
  shows "store_ok (fst (persona_delete st s rq))"
  using assms set_delete_first [of "\<lambda>x. p_id x = the (query_personaId rq)" "personas st"]
  by (auto simp: store_ok_def persona_delete_def route_def persona_delete_handler_def
        PersonaCollection_deleteOne_def list_all_iff distinct_delete_first
      split: option.splits)

lemma follow_delete_store_ok:
  assumes "store_ok st"
  shows "store_ok (fst (follow_delete st s rq))"
proof -
  have "list_all (\<lambda>f. f_id f < n) (delete_first P fs)" if "list_all (\<lambda>f. f_id f < n) fs"
    for n P and fs :: "follow list"
    using that set_delete_first [of P fs] by (auto simp: list_all_iff)
  with assms show ?thesis
    by (auto simp: store_ok_def follow_delete_def route_def follow_delete_handler_def
        FollowCollection_deleteOne_def distinct_delete_first
      split: option.splits)
qed

lemma persona_create_keeps_handles_distinct:
  assumes "distinct (map handle (personas st))"
  shows "distinct (map handle (personas (fst (persona_create st s rq))))"
proof (cases "run_validators [isUserLoggedIn, isValidName, isValidHandle, isHandleNotAlreadyInUse] st s rq")
  case (Some r)
  with assms show ?thesis by (simp add: persona_create_def route_def)
next
  case None
  then have v: "rmatch handleRegex (body_handle rq)"
    and u: "isHandleNotAlreadyInUse st s rq = None"
    by (auto simp: isValidHandle_def split: option.splits if_splits)
  from v have w: "word_token (body_handle rq)" by (simp add: handleRegex_iff)
  then have "PersonaCollection_findOneByHandle st (body_handle rq) =
      Inr (find (\<lambda>p. handle p = body_handle rq) (personas st))"
    using findOneByHandle_literal [of "body_handle rq" st] by (simp add: word_token_plain)
  with u have "find (\<lambda>p. handle p = body_handle rq) (personas st) = None"
    by (auto simp: isHandleNotAlreadyInUse_def split: option.splits)
  then have "body_handle rq \<notin> handle ` set (personas st)"
    by (auto simp: find_None_iff)
  with assms None show ?thesis
    by (auto simp: persona_create_def route_def persona_create_handler_def
        PersonaCollection_addOne_def Let_def simp del: run_validators.simps)
qed

lemma store0_ok: "store_ok store0"
  by code_simp

section \<open>Evaluations on the small store\<close>

lemma store1_eq:
  "store1 = store0\<lparr>follows := [\<lparr>f_id = 13, followerId = 10, followingId = 11, dateFollowed = 1000\<rparr>],
      next_oid := 14\<rparr>"
  by code_simp

lemma delete_alice_by_bob:
  "persona_delete store1 (ann_session (Some 11)) (query_request 10) =
     (store1\<lparr>personas := [bob, carol]\<rparr>, ann_session (Some 11), Json 200 MessageBody)"
  by code_simp

lemma unfollow_by_query_and_body:
  "follow_delete store1 (ann_session (Some 10)) ((query_request 11)\<lparr>body_personaId := Some 11\<rparr>) =
     (store1\<lparr>follows := []\<rparr>, ann_session (Some 10), Json 200 MessageBody)"
  by code_simp

lemma unfollow_unchecked_lookup_throws:
  "follow_delete store1 (ann_session (Some 10)) ((query_request 12)\<lparr>body_personaId := Some 11\<rparr>) =
     (store1, ann_session (Some 10), Throws TypeError)"
  by code_simp

lemma create_Alice:
  "persona_create store0 (ann_session (Some 11)) (create_request ''ann'' ''Alice'' ''Alice A'') =
   (store0\<lparr>personas := personas store0 @
        [\<lparr>p_id = 13, user = ''ann'', handle = ''Alice'', name = ''Alice A''\<rparr>],
      next_oid := 14\<rparr>,
    (ann_session (Some 11))\<lparr>personId := Some 13\<rparr>,
    Json 201 (PersonaBody \<lparr>p_id = 13, user = ''ann'', handle = ''Alice'', name = ''Alice A''\<rparr>))"
  by code_simp

section \<open>Creating a persona and the active persona\<close>

text \<open>
  C10. Whatever the create route answers, it leaves \<open>session.personaId\<close>, the active
  persona, as it was. When it answers 201 with the new persona, it has written that
  persona's identifier, the one the store assigned, into the other field
  \<open>session.personId\<close>, and has appended the persona to the collection.
\<close>

theorem persona_create_keeps_personaId:
  "personaId (fst (snd (persona_create st s rq))) = personaId s \<and>
   (\<forall>p. snd (snd (persona_create st s rq)) = Json 201 (PersonaBody p) \<longrightarrow>
        personId (fst (snd (persona_create st s rq))) = Some (p_id p) \<and>
        p_id p = next_oid st \<and>
        personas (fst (persona_create st s rq)) = personas st @ [p])"
  by (auto simp: persona_create_def route_def persona_create_handler_def
        PersonaCollection_addOne_def Let_def isUserLoggedIn_def isValidName_def
        isValidHandle_def isHandleNotAlreadyInUse_def
      split: option.splits sum.splits if_splits)

theorem persona_create_keeps_personaId_witness:
  "snd (snd (persona_create store0 (ann_session (Some 11))
              (create_request ''ann'' ''Alice'' ''Alice A''))) =
     Json 201 (PersonaBody \<lparr>p_id = 13, user = ''ann'', handle = ''Alice'', name = ''Alice A''\<rparr>) \<and>
   personaId (fst (snd (persona_create store0 (ann_session (Some 11))
              (create_request ''ann'' ''Alice'' ''Alice A'')))) = Some 11 \<and>
   personId (fst (snd (persona_create store0 (ann_session (Some 11))
              (create_request ''ann'' ''Alice'' ''Alice A'')))) = Some 13"
  using persona_create_keeps_personaId
    [of store0 "ann_session (Some 11)" "create_request ''ann'' ''Alice'' ''Alice A''"]
  unfolding create_Alice by (simp add: ann_session_def)

section \<open>Deleting a persona\<close>

text \<open>
  When the query spells the identifier as the session does, the guard holds: the route
  leaves the store and the session as they were, and answers 401 once both validators
  have passed.
\<close>

lemma persona_delete_verbatim_refused:
  assumes "personaId s = Some a" and "query_personaId rq = Some a"
    and "query_personaId_verbatim rq"
  shows "fst (persona_delete st s rq) = st \<and> fst (snd (persona_delete st s rq)) = s \<and>
    (userId s \<noteq> None \<and> PersonaCollection_findOneByPersonaId st a \<noteq> None \<longrightarrow>
       snd (snd (persona_delete st s rq)) = Json 401 ErrorBody)"
  using assms
  by (auto simp: persona_delete_def route_def persona_delete_handler_def
        isUserLoggedIn_def isPersonaQueryExists_def split: option.splits)

text \<open>
  C4. Alice is the active persona of the session, and the query names alice with the
  hexadecimal digits of her identifier in upper case. The store finds her, so both
  validators pass; the guard compares two different strings; the route deletes the
  active persona and answers 200.
\<close>

theorem persona_delete_active_other_spelling:
  "personaId (ann_session (Some 10)) = Some 10 \<and>
   query_personaId (query_request_upper_case 10) = Some 10 \<and>
   PersonaCollection_findOneByPersonaId store1 10 = Some alice \<and>
   persona_delete store1 (ann_session (Some 10)) (query_request_upper_case 10) =
     (store1\<lparr>personas := [bob, carol]\<rparr>, ann_session (Some 10), Json 200 MessageBody)"
  by code_simp

text \<open>
  C1, as stated, fails: after alice has followed bob, a session whose active persona is
  bob deletes alice; the route answers 200, and the edge from alice to bob is still found.
\<close>

theorem persona_delete_leaves_edges_counterexample:
  "personaId (ann_session (Some 11)) \<noteq> Some 10 \<and>
   snd (snd (persona_delete store1 (ann_session (Some 11)) (query_request 10))) =
     Json 200 MessageBody \<and>
   FollowCollection_findOneByPartyIds
     (fst (persona_delete store1 (ann_session (Some 11)) (query_request 10)))
     (Some 10) (Some 11) =
     Some \<lparr>f_id = 13, followerId = 10, followingId = 11, dateFollowed = 1000\<rparr>"
  unfolding delete_alice_by_bob
  by (simp add: ann_session_def store1_eq FollowCollection_findOneByPartyIds_def)

text \<open>
  C1, amended. A logged-in session whose active persona is not \<open>p\<close> deletes the
  existing persona \<open>p\<close>: the route answers 200, removes the first persona document
  whose identifier is \<open>p\<close> and nothing else, and leaves every edge in place; when
  identifiers are unique in the collection, no persona with identifier \<open>p\<close> is found
  afterwards.
\<close>

theorem persona_delete_removes_record_only:
  assumes "userId s \<noteq> None" and "query_personaId rq = Some p"
    and "personaId s \<noteq> Some p"
    and "PersonaCollection_findOneByPersonaId st p \<noteq> None"
  shows "persona_delete st s rq =
           (st\<lparr>personas := delete_first (\<lambda>x. p_id x = p) (personas st)\<rparr>, s, Json 200 MessageBody) \<and>
         follows (fst (persona_delete st s rq)) = follows st \<and>
         (distinct (map p_id (personas st)) \<longrightarrow>
            PersonaCollection_findOneByPersonaId (fst (persona_delete st s rq)) p = None)"
  using assms
  by (auto simp: persona_delete_def route_def persona_delete_handler_def
        isUserLoggedIn_def isPersonaQueryExists_def PersonaCollection_deleteOne_def
        PersonaCollection_findOneByPersonaId_def find_delete_first_distinct
      split: option.splits)

theorem persona_delete_removes_record_only_witness:
  "userId (ann_session (Some 11)) \<noteq> None \<and> query_personaId (query_request 10) = Some 10 \<and>
   personaId (ann_session (Some 11)) \<noteq> Some 10 \<and>
   PersonaCollection_findOneByPersonaId store1 10 \<noteq> None \<and>
   distinct (map p_id (personas store1)) \<and>
   follows (fst (persona_delete store1 (ann_session (Some 11)) (query_request 10))) =
     follows store1 \<and>
   PersonaCollection_findOneByPersonaId
     (fst (persona_delete store1 (ann_session (Some 11)) (query_request 10))) 10 = None"
proof -
  have u: "userId (ann_session (Some 11)) \<noteq> None"
    by (simp add: ann_session_def)
  have q: "query_personaId (query_request 10) = Some 10"
    by (simp add: query_request_def no_request_def)
  have a: "personaId (ann_session (Some 11)) \<noteq> Some 10"
    by (simp add: ann_session_def)
  have e: "PersonaCollection_findOneByPersonaId store1 10 \<noteq> None"
    by code_simp
  have d: "distinct (map p_id (personas store1))"
    by code_simp
  from persona_delete_removes_record_only [OF u q a e] d u q a e
  show ?thesis by blast
qed


section \<open>Following\<close>

text \<open>
  C3. The persona \<open>a\<close> of the session has followed \<open>b\<close>, a different persona: the
  route answered 201. Then the same request again is answered 409 and changes nothing;
  and the follow in the other direction, asked by a logged-in session whose active
  persona is \<open>b\<close> for the existing persona \<open>a\<close>, is answered 201 and appends the edge
  from \<open>b\<close> to \<open>a\<close>, provided no such edge was there before: the edge from \<open>a\<close> to
  \<open>b\<close> does not count against it.
\<close>

theorem follow_duplicate_refused_reverse_accepted:
  assumes first: "follow_create t1 st s rq = (st', s', Json 201 (FollowBody f))"
    and a: "personaId s = Some a" and b: "body_personaId rq = Some b" and ab: "a \<noteq> b"
  shows "follow_create t2 st' s rq = (st', s, Json 409 ErrorBody) \<and>
    (userId sb \<noteq> None \<and> personaId sb = Some b \<and> body_personaId rb = Some a \<and>
     PersonaCollection_findOneByPersonaId st a \<noteq> None \<and>
     FollowCollection_findOneByPartyIds st (Some b) (Some a) = None \<longrightarrow>
       follow_create t3 st' sb rb =
         (st'\<lparr>follows := follows st' @
              [\<lparr>f_id = next_oid st', followerId = b, followingId = a, dateFollowed = t3\<rparr>],
             next_oid := Suc (next_oid st')\<rparr>,
          sb,
          Json 201 (FollowBody
            \<lparr>f_id = next_oid st', followerId = b, followingId = a, dateFollowed = t3\<rparr>)))"
proof -
  from first a b have u: "userId s \<noteq> None"
    and eb: "PersonaCollection_findOneByPersonaId st b \<noteq> None"
    and f: "f = \<lparr>f_id = next_oid st, followerId = a, followingId = b, dateFollowed = t1\<rparr>"
    and st': "st' = st\<lparr>follows := follows st @ [f], next_oid := Suc (next_oid st)\<rparr>"
    by (auto simp: follow_create_success)
  have dup: "FollowCollection_findOneByPartyIds st' (Some a) (Some b) \<noteq> None"
    by (simp add: st' findOneByPartyIds_after_addOne f split: option.splits)
  have eb': "PersonaCollection_findOneByPersonaId st' b \<noteq> None"
    using eb by (simp add: st' findOneByPersonaId_after_addOne)
  have second: "follow_create t2 st' s rq = (st', s, Json 409 ErrorBody)"
    using u a b eb' dup by (rule follow_create_conflict)
  have reverse: "follow_create t3 st' sb rb =
         (st'\<lparr>follows := follows st' @
              [\<lparr>f_id = next_oid st', followerId = b, followingId = a, dateFollowed = t3\<rparr>],
             next_oid := Suc (next_oid st')\<rparr>,
          sb,
          Json 201 (FollowBody
            \<lparr>f_id = next_oid st', followerId = b, followingId = a, dateFollowed = t3\<rparr>))"
    if h: "userId sb \<noteq> None" "personaId sb = Some b" "body_personaId rb = Some a"
      "PersonaCollection_findOneByPersonaId st a \<noteq> None"
      "FollowCollection_findOneByPartyIds st (Some b) (Some a) = None"
  proof -
    have "FollowCollection_findOneByPartyIds st' (Some b) (Some a) = None"
      using h(5) ab by (simp add: st' findOneByPartyIds_after_addOne f)
    moreover have "PersonaCollection_findOneByPersonaId st' a \<noteq> None"
      using h(4) by (simp add: st' findOneByPersonaId_after_addOne)
    ultimately show ?thesis
      using h(1,2,3) by (simp add: follow_create_success)
  qed
  from second reverse show ?thesis by blast
qed

theorem follow_duplicate_refused_reverse_accepted_witness:
  "follow_create 1000 store0 (ann_session (Some 10)) (body_request 11) =
     (store1, ann_session (Some 10),
      Json 201 (FollowBody \<lparr>f_id = 13, followerId = 10, followingId = 11, dateFollowed = 1000\<rparr>)) \<and>
   follow_create 2000 store1 (ann_session (Some 10)) (body_request 11) =
     (store1, ann_session (Some 10), Json 409 ErrorBody) \<and>
   follow_create 3000 store1 (ann_session (Some 11)) (body_request 10) =
     (store1\<lparr>follows := follows store1 @
          [\<lparr>f_id = 14, followerId = 11, followingId = 10, dateFollowed = 3000\<rparr>],
        next_oid := 15\<rparr>,
      ann_session (Some 11),
      Json 201 (FollowBody \<lparr>f_id = 14, followerId = 11, followingId = 10, dateFollowed = 3000\<rparr>))"
proof -
  have first: "follow_create 1000 store0 (ann_session (Some 10)) (body_request 11) =
     (store1, ann_session (Some 10),
      Json 201 (FollowBody \<lparr>f_id = 13, followerId = 10, followingId = 11, dateFollowed = 1000\<rparr>))"
    by code_simp
  have a: "personaId (ann_session (Some 10)) = Some 10"
    by (simp add: ann_session_def)
  have b: "body_personaId (body_request 11) = Some 11"
    by (simp add: body_request_def no_request_def)
  have ab: "(10::nat) \<noteq> 11" by simp
  have rev: "userId (ann_session (Some 11)) \<noteq> None \<and> personaId (ann_session (Some 11)) = Some 11 \<and>
     body_personaId (body_request 10) = Some 10 \<and>
     PersonaCollection_findOneByPersonaId store0 10 \<noteq> None \<and>
     FollowCollection_findOneByPartyIds store0 (Some 11) (Some 10) = None"
    by code_simp
  have n: "next_oid store1 = 14" by code_simp
  from follow_duplicate_refused_reverse_accepted
    [OF first a b ab, of 2000 "ann_session (Some 11)" "body_request 10" 3000] rev first
  show ?thesis by (simp add: n)
qed


text \<open>
  C5. After alice has followed bob at time 1000 and carol at time 2000, and carol has
  followed bob at time 3000, the edges alice initiated and the edges bob received come
  back in insertion order, the oldest first, from the collection and from the two
  routes alike: neither list is newest first.
\<close>

theorem following_and_followers_oldest_first:
  "FollowCollection_findAllInitiatedById store3 10 = [edge 13 10 11 1000, edge 14 10 12 2000] \<and>
   \<not> newest_first (FollowCollection_findAllInitiatedById store3 10) \<and>
   FollowCollection_findAllReceivedById store3 11 = [edge 13 10 11 1000, edge 15 12 11 3000] \<and>
   \<not> newest_first (FollowCollection_findAllReceivedById store3 11) \<and>
   snd (snd (follow_following store3 (ann_session (Some 10)) no_request)) =
     Json 200 (FollowListBody [edge 13 10 11 1000, edge 14 10 12 2000]) \<and>
   snd (snd (follow_followers store3 (ann_session (Some 11)) no_request)) =
     Json 200 (FollowListBody [edge 13 10 11 1000, edge 15 12 11 3000])"
  by code_simp

text \<open>
  C6. Alice follows bob, and the session whose active persona is alice sends the unfollow
  request as the route documents it, with bob's identifier in the query: the route
  answers 404 and the edge stays. It does the same when the body names another persona:
  the validator that looks the edge up reads the body, not the query.
\<close>

theorem unfollow_by_query_not_found:
  "FollowCollection_findOneByPartyIds store1 (Some 10) (Some 11) = Some (edge 13 10 11 1000) \<and>
   follow_delete store1 (ann_session (Some 10)) (query_request 11) =
     (store1, ann_session (Some 10), Json 404 ErrorBody) \<and>
   follow_delete store1 (ann_session (Some 10)) ((query_request 11)\<lparr>body_personaId := Some 12\<rparr>) =
     (store1, ann_session (Some 10), Json 404 ErrorBody)"
  by code_simp

section \<open>Looking a persona up by handle\<close>

text \<open>
  When the trimmed input has no pattern syntax character, the lookup returns the first
  persona whose stored handle equals the trimmed input, and none if there is no such
  persona. A word token, the only input the handle validator lets through, is its own
  trimmed form.
\<close>

lemma findOneByHandle_exact_on_literals:
  assumes "literal_pattern (js_trim h)"
  shows "PersonaCollection_findOneByHandle st h =
           Inr (find (\<lambda>p. handle p = js_trim h) (personas st)) \<and>
         (\<forall>p. PersonaCollection_findOneByHandle st h = Inr (Some p) \<longrightarrow>
              p \<in> set (personas st) \<and> handle p = js_trim h) \<and>
         (PersonaCollection_findOneByHandle st h = Inr None \<longleftrightarrow>
            (\<forall>p\<in>set (personas st). handle p \<noteq> js_trim h)) \<and>
         (word_token h \<longrightarrow> js_trim h = h)"
proof -
  have eq: "PersonaCollection_findOneByHandle st h =
           Inr (find (\<lambda>p. handle p = js_trim h) (personas st))"
    using assms by (rule findOneByHandle_literal)
  have some: "p \<in> set (personas st) \<and> handle p = js_trim h"
    if "PersonaCollection_findOneByHandle st h = Inr (Some p)" for p
    using that unfolding eq by (auto simp: find_Some_iff)
  have none: "PersonaCollection_findOneByHandle st h = Inr None \<longleftrightarrow>
            (\<forall>p\<in>set (personas st). handle p \<noteq> js_trim h)"
    unfolding eq by (auto simp: find_None_iff)
  have "word_token h \<longrightarrow> js_trim h = h"
    by (simp add: word_token_plain)
  with eq some none show ?thesis by blast
qed

text \<open>
  C7. The input is put into the pattern as it is, so a syntax character in it is read
  as syntax: the lookup of \<open>al.ce\<close> returns the persona whose handle is \<open>alice\<close>,
  which is not the handle asked for.
\<close>

theorem findOneByHandle_dot_finds_other_handle:
  "PersonaCollection_findOneByHandle store0 ''al.ce'' = Inr (Some alice) \<and>
   handle alice = ''alice'' \<and> handle alice \<noteq> ''al.ce''"
  by code_simp

section \<open>Creating a persona\<close>

text \<open>
  C2. For a logged-in session and a request whose name and handle pass the two format
  validators, the create route answers 409 exactly when some stored persona has the very
  handle of the request, compared as strings; it then changes nothing. When no persona
  has it and the username is not empty, the route answers 201 with the new persona.
\<close>

theorem create_conflict_iff_handle_taken:
  assumes "userId s \<noteq> None" and "rmatch nameRegex (body_name rq)"
    and "rmatch handleRegex (body_handle rq)"
  shows "(snd (snd (persona_create st s rq)) = Json 409 ErrorBody \<longleftrightarrow>
            (\<exists>p\<in>set (personas st). handle p = body_handle rq)) \<and>
         ((\<exists>p\<in>set (personas st). handle p = body_handle rq) \<longrightarrow>
            persona_create st s rq = (st, s, Json 409 ErrorBody)) \<and>
         (\<not> (\<exists>p\<in>set (personas st). handle p = body_handle rq) \<and> body_username rq \<noteq> [] \<longrightarrow>
            snd (snd (persona_create st s rq)) =
              Json 201 (PersonaBody \<lparr>p_id = next_oid st, user = body_username rq,
                 handle = body_handle rq, name = body_name rq\<rparr>))"
proof -
  from assms(3) have w: "word_token (body_handle rq)"
    by (simp add: handleRegex_iff)
  then have "PersonaCollection_findOneByHandle st (body_handle rq) =
      Inr (find (\<lambda>p. handle p = body_handle rq) (personas st))"
    using findOneByHandle_literal [of "body_handle rq" st] by (simp add: word_token_plain)
  moreover have "find (\<lambda>p. handle p = body_handle rq) (personas st) = None \<longleftrightarrow>
      \<not> (\<exists>p\<in>set (personas st). handle p = body_handle rq)"
    by (auto simp: find_None_iff)
  moreover from w have "body_handle rq \<noteq> []" by (simp add: word_token_def)
  moreover from assms(2) have "body_name rq \<noteq> []"
    by (auto simp: nameRegex_def Plus_def Range_def)
  ultimately show ?thesis using assms
    by (auto simp: persona_create_def route_def persona_create_handler_def
        PersonaCollection_addOne_def Let_def isUserLoggedIn_def isValidName_def
        isValidHandle_def isHandleNotAlreadyInUse_def
      split: option.splits sum.splits if_splits)
qed


theorem create_conflict_iff_handle_taken_witness:
  "snd (snd (persona_create fresh_store (ann_session None)
              (create_request ''ann'' ''Alice'' ''Alice A''))) =
     Json 201 (PersonaBody \<lparr>p_id = 10, user = ''ann'', handle = ''Alice'', name = ''Alice A''\<rparr>) \<and>
   snd (snd (persona_create after_Alice (ann_session None)
              (create_request ''ann'' ''alice'' ''Alice B''))) =
     Json 201 (PersonaBody \<lparr>p_id = 11, user = ''ann'', handle = ''alice'', name = ''Alice B''\<rparr>) \<and>
   persona_create after_alice (ann_session None) (create_request ''ann'' ''alice'' ''Alice C'') =
     (after_alice, ann_session None, Json 409 ErrorBody)"
proof -
  have u: "userId (ann_session None) \<noteq> None"
    by (simp add: ann_session_def)
  have n1: "rmatch nameRegex (body_name (create_request ''ann'' ''Alice'' ''Alice A''))"
    and h1: "rmatch handleRegex (body_handle (create_request ''ann'' ''Alice'' ''Alice A''))"
    and n2: "rmatch nameRegex (body_name (create_request ''ann'' ''alice'' ''Alice B''))"
    and h2: "rmatch handleRegex (body_handle (create_request ''ann'' ''alice'' ''Alice B''))"
    and n3: "rmatch nameRegex (body_name (create_request ''ann'' ''alice'' ''Alice C''))"
    and h3: "rmatch handleRegex (body_handle (create_request ''ann'' ''alice'' ''Alice C''))"
    by code_simp+
  have free1: "\<not> (\<exists>p\<in>set (personas fresh_store).
        handle p = body_handle (create_request ''ann'' ''Alice'' ''Alice A'')) \<and>
      body_username (create_request ''ann'' ''Alice'' ''Alice A'') \<noteq> []"
    by code_simp
  have free2: "\<not> (\<exists>p\<in>set (personas after_Alice).
        handle p = body_handle (create_request ''ann'' ''alice'' ''Alice B'')) \<and>
      body_username (create_request ''ann'' ''alice'' ''Alice B'') \<noteq> []"
    by code_simp
  have taken: "\<exists>p\<in>set (personas after_alice).
        handle p = body_handle (create_request ''ann'' ''alice'' ''Alice C'')"
    by code_simp
  have v1: "next_oid fresh_store = 10" and v2: "next_oid after_Alice = 11"
    by code_simp+
  have r: "body_username (create_request u h n) = u" "body_handle (create_request u h n) = h"
    "body_name (create_request u h n) = n" for u h n
    by (simp_all add: create_request_def no_request_def)
  from create_conflict_iff_handle_taken [OF u n1 h1, of fresh_store] free1
  have c1: "snd (snd (persona_create fresh_store (ann_session None)
              (create_request ''ann'' ''Alice'' ''Alice A''))) =
     Json 201 (PersonaBody \<lparr>p_id = 10, user = ''ann'', handle = ''Alice'', name = ''Alice A''\<rparr>)"
    by (simp add: v1 r)
  from create_conflict_iff_handle_taken [OF u n2 h2, of after_Alice] free2
  have c2: "snd (snd (persona_create after_Alice (ann_session None)
              (create_request ''ann'' ''alice'' ''Alice B''))) =
     Json 201 (PersonaBody \<lparr>p_id = 11, user = ''ann'', handle = ''alice'', name = ''Alice B''\<rparr>)"
    by (simp add: v2 r)
  from create_conflict_iff_handle_taken [OF u n3 h3, of after_alice] taken
  have c3: "persona_create after_alice (ann_session None) (create_request ''ann'' ''alice'' ''Alice C'') =
     (after_alice, ann_session None, Json 409 ErrorBody)"
    by blast
  from c1 c2 c3 show ?thesis by blast
qed

text \<open>
  C8. A one-letter name is one group of word characters, and the handle \<open>a\<close> is a word
  token; yet the name expression refuses the name, and the create route answers 400.
\<close>

theorem create_rejects_one_letter_name:
  "word_token ''a'' \<and> spec_name_ok ''A'' \<and>
   \<not> rmatch nameRegex ''A'' \<and>
   persona_create store0 (ann_session None) (create_request ''ann'' ''a'' ''A'') =
     (store0, ann_session None, Json 400 ErrorBody)"
  by code_simp

section \<open>Signing a persona in\<close>

text \<open>
  The session is logged in as an existing account whose username is made of word
  characters, and the handle of the request passes the format validator. If the account
  has no persona with that handle, the route answers 404 and changes nothing. Otherwise
  it resolves the first persona with that handle, writes its identifier into
  \<open>session.personaId\<close>, leaves the store as it was and answers 200 with that persona;
  when handles are unique in the collection, the resolved persona belongs to the account.
\<close>

lemma signIn_on_word_usernames:
  assumes u: "userId s = Some uid" and acc: "map_of (users st) uid = Some username"
    and un: "list_all word_char username"
    and h: "rmatch handleRegex (body_handle rq)"
  shows "(\<not> (\<exists>p\<in>set (personas st). user p = username \<and> handle p = body_handle rq) \<longrightarrow>
            persona_signIn st s rq = (st, s, Json 404 ErrorBody)) \<and>
         ((\<exists>p\<in>set (personas st). user p = username \<and> handle p = body_handle rq) \<longrightarrow>
            (\<exists>p. find (\<lambda>p. handle p = body_handle rq) (personas st) = Some p \<and>
                 persona_signIn st s rq =
                   (st, s\<lparr>personaId := Some (p_id p)\<rparr>, Json 200 (PersonaBody p)) \<and>
                 (distinct (map handle (personas st)) \<longrightarrow> user p = username)))"
proof -
  from h have w: "word_token (body_handle rq)"
    by (simp add: handleRegex_iff)
  have byUser: "PersonaCollection_findOneByUserAndHandle st username (body_handle rq) =
      Inr (find (\<lambda>p. user p = username \<and> handle p = body_handle rq) (personas st))"
    using un w by (rule findOneByUserAndHandle_word)
  have byHandle: "PersonaCollection_findOneByHandle st (body_handle rq) =
      Inr (find (\<lambda>p. handle p = body_handle rq) (personas st))"
    using findOneByHandle_literal [of "body_handle rq" st] w by (simp add: word_token_plain)
  have guard: "run_validators [isUserLoggedIn, isValidHandle, isPersonaHandleExistWithUser] st s rq =
      (case find (\<lambda>p. user p = username \<and> handle p = body_handle rq) (personas st) of
         None \<Rightarrow> Some (Json 404 ErrorBody) | Some p \<Rightarrow> None)"
    using u acc h
    by (simp add: isUserLoggedIn_def isValidHandle_def isPersonaHandleExistWithUser_def
          UserCollection_findOneByUserId_def byUser split: option.splits)
  show ?thesis
  proof (intro conjI impI)
    assume "\<not> (\<exists>p\<in>set (personas st). user p = username \<and> handle p = body_handle rq)"
    then have "find (\<lambda>p. user p = username \<and> handle p = body_handle rq) (personas st) = None"
      by (auto simp: find_None_iff)
    then show "persona_signIn st s rq = (st, s, Json 404 ErrorBody)"
      by (simp add: persona_signIn_def route_def guard del: run_validators.simps)
  next
    assume ex: "\<exists>p\<in>set (personas st). user p = username \<and> handle p = body_handle rq"
    then obtain q where q: "q \<in> set (personas st)" "user q = username"
      "handle q = body_handle rq" by blast
    then have "find (\<lambda>p. user p = username \<and> handle p = body_handle rq) (personas st) \<noteq> None"
      by (auto simp: find_None_iff)
    then have pass: "run_validators [isUserLoggedIn, isValidHandle, isPersonaHandleExistWithUser]
        st s rq = None"
      unfolding guard by (auto split: option.splits)
    from q have "find (\<lambda>p. handle p = body_handle rq) (personas st) \<noteq> None"
      by (auto simp: find_None_iff)
    then obtain p where p: "find (\<lambda>p. handle p = body_handle rq) (personas st) = Some p"
      by blast
    have "persona_signIn st s rq = (st, s\<lparr>personaId := Some (p_id p)\<rparr>, Json 200 (PersonaBody p))"
      by (simp add: persona_signIn_def route_def pass persona_signIn_handler_def byHandle p
            del: run_validators.simps)
    moreover have "user p = username" if "distinct (map handle (personas st))"
      using find_unique_key [OF that p q(1) q(3)] q(2) by simp
    ultimately show "\<exists>p. find (\<lambda>p. handle p = body_handle rq) (personas st) = Some p \<and>
                 persona_signIn st s rq =
                   (st, s\<lparr>personaId := Some (p_id p)\<rparr>, Json 200 (PersonaBody p)) \<and>
                 (distinct (map handle (personas st)) \<longrightarrow> user p = username)"
      using p by blast
  qed
qed

text \<open>
  C9. The username of the account goes into a pattern as it is, too. The account
  \<open>a.n\<close> owns no persona; it asks to sign in with the handle \<open>bob\<close>, a persona of
  account \<open>ann\<close>. The ownership check finds bob, because \<open>a.n\<close> as a pattern matches
  \<open>ann\<close>; the route answers 200 and binds the session to bob.
\<close>

theorem signIn_dot_account_gets_other_persona:
  "UserCollection_findOneByUserId store_dot (userId (dot_session None)) = Some ''a.n'' \<and>
   \<not> (\<exists>p\<in>set (personas store_dot). user p = ''a.n'' \<and> handle p = ''bob'') \<and>
   user bob = ''ann'' \<and>
   persona_signIn store_dot (dot_session None) (handle_request ''bob'') =
     (store_dot, dot_session (Some 11), Json 200 (PersonaBody bob))"
  by code_simp

end
